theory Spec2Isabelle
  imports Complex_Main "HOL-Library.AList" "HOL-Library.Sublist"
begin

section \<open>The reels scheduler (scripts/ig\_reels\_scheduler.py)\<close>

text \<open>
  The script loads a manifest of post records, publishes every due one through three
  remote calls (create a container, poll its status, publish it) and writes the manifest
  back when a record changed. The embedding keeps the script's control flow; what lies
  outside the script is a value the model is given:
  \<^item> the remote API is an oracle \<open>remote\<close>: the answer to the n-th request of the run, with
    the time the request took;
  \<^item> \<open>time.time()\<close> is the field \<open>clock\<close> of the world, a real number of seconds;
    \<open>time.sleep\<close> advances it by the interval, and a longer sleep counts as latency of
    the request that follows;
  \<^item> \<open>datetime.now(IST)\<close> is a parameter of \<open>main\<close>;
  \<^item> the manifest file holds the rows as \<open>csv.DictReader\<close> yields them (every cell a
    string), and the csv text round trip is taken as exact;
  \<^item> strings are lists of 8-bit characters, response bodies are JSON objects with string
    values.
\<close>

subsection \<open>Strings\<close>

definition is_space :: "char \<Rightarrow> bool" where
  "is_space c \<longleftrightarrow> c \<in> {CHR 0x09, CHR 0x0A, CHR 0x0B, CHR 0x0C, CHR 0x0D, CHR 0x1C, CHR 0x1D,
     CHR 0x1E, CHR 0x1F, CHR 0x20, CHR 0x85, CHR 0xA0}"

definition strip :: "string \<Rightarrow> string" where
  "strip s = rev (dropWhile is_space (rev (dropWhile is_space s)))"

definition lower_char :: "char \<Rightarrow> char" where
  "lower_char c =
     (let n = (of_char c :: nat)
      in if (65 \<le> n \<and> n \<le> 90) \<or> (192 \<le> n \<and> n \<le> 222 \<and> n \<noteq> 215)
         then char_of (n + 32) else c)"

definition lower :: "string \<Rightarrow> string" where
  "lower s = map lower_char s"

definition parse_bool :: "string \<Rightarrow> bool" where
  "parse_bool s \<longleftrightarrow> lower (strip s) \<in> {''1'', ''true'', ''yes'', ''y''}"

definition endswith :: "string \<Rightarrow> string \<Rightarrow> bool" where
  "endswith s suf \<longleftrightarrow> length suf \<le> length s \<and> drop (length s - length suf) s = suf"

subsection \<open>Rows of the manifest\<close>

text \<open>A row is a Python dict from column names to cells, in insertion order.\<close>

type_synonym row = "(string \<times> string) list"

definition get :: "row \<Rightarrow> string \<Rightarrow> string \<Rightarrow> string" where
  "get r k d = (case map_of r k of None \<Rightarrow> d | Some v \<Rightarrow> v)"

definition set_item :: "row \<Rightarrow> string \<Rightarrow> string \<Rightarrow> row" where
  "set_item r k v = AList.update k v r"

subsection \<open>Wall-clock datetimes and strptime\<close>

record datetime =
  year :: nat
  month :: nat
  day :: nat
  hour :: nat
  minute :: nat
  second :: nat
  microsecond :: nat

text \<open>
  Both sides of the script's comparison carry the same \<open>tzinfo\<close> object, so Python
  compares the fields in order and ignores the offset.
\<close>

definition dt_key :: "datetime \<Rightarrow> nat list" where
  "dt_key d = [year d, month d, day d, hour d, minute d, second d, microsecond d]"

fun lex_less :: "nat list \<Rightarrow> nat list \<Rightarrow> bool" where
  "lex_less (x # xs) (y # ys) = (x < y \<or> (x = y \<and> lex_less xs ys))"
| "lex_less [] (y # ys) = True"
| "lex_less _ [] = False"

definition dt_less :: "datetime \<Rightarrow> datetime \<Rightarrow> bool" where
  "dt_less a b = lex_less (dt_key a) (dt_key b)"

definition truncate_minute :: "datetime \<Rightarrow> datetime" where
  "truncate_minute d = d\<lparr>second := 0, microsecond := 0\<rparr>"

definition is_digit :: "char \<Rightarrow> bool" where
  "is_digit c \<longleftrightarrow> c \<in> set ''0123456789''"

definition digit_val :: "char \<Rightarrow> nat" where
  "digit_val c = of_char c - 48"

definition num_val :: "string \<Rightarrow> nat" where
  "num_val s = foldl (\<lambda>a c. 10 * a + digit_val c) 0 (dropWhile is_space s)"

text \<open>
  \<open>strptime\<close> turns the format into a regular expression and takes the first match
  of a backtracking search. Each directive below lists its alternatives in the order of
  the expression, as pairs of the matched text and the rest of the input:
  \<open>%Y\<close> is \<open>\d\d\d\d\<close>, \<open>%m\<close> is \<open>1[0-2]|0[1-9]|[1-9]\<close>,
  \<open>%d\<close> is \<open>3[0-1]|[1-2]\d|0[1-9]|[1-9]| [1-9]\<close>, \<open>%H\<close> is \<open>2[0-3]|[0-1]\d|\d\<close>,
  \<open>%M\<close> is \<open>[0-5]\d|\d\<close>, and a blank of the format is \<open>\s+\<close>.
\<close>

type_synonym 'a parser = "string \<Rightarrow> ('a \<times> string) list"

definition two :: "(char \<Rightarrow> bool) \<Rightarrow> (char \<Rightarrow> bool) \<Rightarrow> string parser" where
  "two p q s = (case s of a # b # rest \<Rightarrow> if p a \<and> q b then [([a, b], rest)] else [] | _ \<Rightarrow> [])"

definition one :: "(char \<Rightarrow> bool) \<Rightarrow> string parser" where
  "one p s = (case s of a # rest \<Rightarrow> if p a then [([a], rest)] else [] | _ \<Rightarrow> [])"

definition in_chars :: "string \<Rightarrow> char \<Rightarrow> bool" where
  "in_chars cs c \<longleftrightarrow> c \<in> set cs"

definition re_Y :: "string parser" where
  "re_Y s = (case s of a # b # c # d # rest \<Rightarrow>
      if is_digit a \<and> is_digit b \<and> is_digit c \<and> is_digit d then [([a, b, c, d], rest)] else []
    | _ \<Rightarrow> [])"

definition re_m :: "string parser" where
  "re_m s = two (in_chars ''1'') (in_chars ''012'') s
          @ two (in_chars ''0'') (in_chars ''123456789'') s
          @ one (in_chars ''123456789'') s"

definition re_d :: "string parser" where
  "re_d s = two (in_chars ''3'') (in_chars ''01'') s
          @ two (in_chars ''12'') is_digit s
          @ two (in_chars ''0'') (in_chars ''123456789'') s
          @ one (in_chars ''123456789'') s
          @ two (in_chars '' '') (in_chars ''123456789'') s"

definition re_H :: "string parser" where
  "re_H s = two (in_chars ''2'') (in_chars ''0123'') s
          @ two (in_chars ''01'') is_digit s
          @ one is_digit s"

definition re_M :: "string parser" where
  "re_M s = two (in_chars ''012345'') is_digit s @ one is_digit s"

definition lit :: "char \<Rightarrow> string \<Rightarrow> string list" where
  "lit c s = (case s of a # rest \<Rightarrow> if a = c then [rest] else [] | _ \<Rightarrow> [])"

text \<open>\<open>\s+\<close> is greedy: the longest run of blanks first, then the shorter ones.\<close>

fun re_spaces :: "string \<Rightarrow> string list" where
  "re_spaces [] = []"
| "re_spaces (c # s) = (if is_space c then re_spaces s @ [s] else [])"

definition re_format :: "string \<Rightarrow> ((string \<times> string \<times> string \<times> string \<times> string) \<times> string) list" where
  "re_format s =
     List.bind (re_Y s) (\<lambda>(y, s1).
     List.bind (lit CHR ''-'' s1) (\<lambda>s2.
     List.bind (re_m s2) (\<lambda>(m, s3).
     List.bind (lit CHR ''-'' s3) (\<lambda>s4.
     List.bind (re_d s4) (\<lambda>(d, s5).
     List.bind (re_spaces s5) (\<lambda>s6.
     List.bind (re_H s6) (\<lambda>(h, s7).
     List.bind (lit CHR '':'' s7) (\<lambda>s8.
     List.bind (re_M s8) (\<lambda>(mi, s9). [((y, m, d, h, mi), s9)])))))))))"

definition is_leap :: "nat \<Rightarrow> bool" where
  "is_leap y \<longleftrightarrow> y mod 4 = 0 \<and> (y mod 100 \<noteq> 0 \<or> y mod 400 = 0)"

definition days_in_month :: "nat \<Rightarrow> nat \<Rightarrow> nat" where
  "days_in_month y m =
     (if m = 2 then (if is_leap y then 29 else 28)
      else if m \<in> {4, 6, 9, 11} then 30 else 31)"

text \<open>
  \<open>datetime.strptime(s, "%Y-%m-%d %H:%M")\<close>: \<open>None\<close> stands for the \<open>ValueError\<close> of no
  match, of unconverted data after the first match, and of a date that does not exist
  (year 0, 30 February).
\<close>

definition strptime :: "string \<Rightarrow> datetime option" where
  "strptime s =
     (case re_format s of
        [] \<Rightarrow> None
      | ((y, m, d, h, mi), rest) # _ \<Rightarrow>
          if rest \<noteq> [] then None
          else if num_val y < 1 then None
          else if num_val d > days_in_month (num_val y) (num_val m) then None
          else Some \<lparr>year = num_val y, month = num_val m, day = num_val d,
                     hour = num_val h, minute = num_val mi, second = 0, microsecond = 0\<rparr>)"

subsection \<open>The world outside the script\<close>

datatype exn =
    OSError
  | RequestException
  | HTTPError
  | JSONDecodeError
  | KeyError string
  | RuntimeError string
  | TimeoutError string
  | ValueError string
  | AttributeError string

text \<open>
  What \<open>requests\<close> can come back with: no response at all, a status that
  \<open>raise_for_status\<close> rejects, a body that is not JSON, or a JSON object.
\<close>

datatype resp = No_response | Bad_status | Bad_json | Body "(string \<times> string) list"

text \<open>
  The three requests of the script: POST \<open>{BASE}/{IG_USER_ID}/media\<close> with its form,
  GET \<open>{BASE}/{container_id}\<close> with its parameters, POST
  \<open>{BASE}/{IG_USER_ID}/media_publish\<close> with its form.
\<close>

datatype request =
    PostMedia "(string \<times> string) list"
  | GetStatus string "(string \<times> string) list"
  | PostPublish "(string \<times> string) list"

datatype logline =
    Info_creating string
  | Ok_container string
  | Info_polling
  | Ok_ready
  | Ok_published string
  | Warn_bad_time string
  | Ok_manifest_updated
  | Info_nothing_due

datatype event = Req request | Slept int | Printed logline | Wrote

record config =
  access_token :: string
  poll_interval :: int
  poll_timeout :: int

record env =
  remote :: "nat \<Rightarrow> request \<Rightarrow> real \<times> resp"

record world =
  clock :: real
  sent :: nat
  trace :: "event list"
  manifest :: "row list option"

definition print :: "logline \<Rightarrow> world \<Rightarrow> world" where
  "print l w = w\<lparr>trace := trace w @ [Printed l]\<rparr>"

definition http :: "env \<Rightarrow> request \<Rightarrow> world \<Rightarrow> resp \<times> world" where
  "http e rq w =
     (let (took, r) = remote e (sent w) rq
      in (r, w\<lparr>clock := clock w + took, sent := Suc (sent w), trace := trace w @ [Req rq]\<rparr>))"

text \<open>\<open>time.sleep\<close> raises \<open>ValueError\<close> on a negative length.\<close>

definition sleep :: "int \<Rightarrow> world \<Rightarrow> exn + world" where
  "sleep n w =
     (if n < 0 then Inl (ValueError ''sleep length must be non-negative'')
      else Inr (w\<lparr>clock := clock w + real_of_int n, trace := trace w @ [Slept n]\<rparr>))"

definition json :: "resp \<Rightarrow> exn + (string \<times> string) list" where
  "json r = (case r of
       No_response \<Rightarrow> Inl RequestException
     | Bad_status \<Rightarrow> Inl HTTPError
     | Bad_json \<Rightarrow> Inl JSONDecodeError
     | Body b \<Rightarrow> Inr b)"

subsection \<open>The three remote steps\<close>

definition create_payload :: "config \<Rightarrow> string \<Rightarrow> string \<Rightarrow> bool \<Rightarrow> string option \<Rightarrow> (string \<times> string) list" where
  "create_payload c video_url caption share_to_feed cover_url =
     [(''media_type'', ''REELS''), (''video_url'', video_url), (''caption'', caption),
      (''share_to_feed'', if share_to_feed then ''true'' else ''false''),
      (''access_token'', access_token c)]
     @ (case cover_url of None \<Rightarrow> [] | Some u \<Rightarrow> [(''cover_url'', u)])"

definition create_reel_container ::
  "env \<Rightarrow> config \<Rightarrow> string \<Rightarrow> string \<Rightarrow> bool \<Rightarrow> string option \<Rightarrow> world \<Rightarrow> (exn + string) \<times> world" where
  "create_reel_container e c video_url caption share_to_feed cover_url w =
     (let (r, w1) = http e (PostMedia (create_payload c video_url caption share_to_feed cover_url)) w
      in case json r of
           Inl x \<Rightarrow> (Inl x, w1)
         | Inr data \<Rightarrow>
             (case map_of data ''id'' of
                None \<Rightarrow> (Inl (KeyError ''id''), w1)
              | Some i \<Rightarrow> (Inr i, w1)))"

definition status_request :: "config \<Rightarrow> string \<Rightarrow> request" where
  "status_request c container_id =
     GetStatus container_id [(''fields'', ''status_code''), (''access_token'', access_token c)]"

text \<open>
  One pass of the \<open>while True\<close> of \<open>poll_container_ready\<close>, from the request to the
  sleep: it returns or raises (\<open>Done\<close>), or goes round again. \<open>start\<close> is the clock
  read before the loop.
\<close>

datatype pass = Done "exn + bool" world | Again world

definition poll_pass :: "env \<Rightarrow> config \<Rightarrow> string \<Rightarrow> real \<Rightarrow> world \<Rightarrow> pass" where
  "poll_pass e c container_id start w =
     (case http e (status_request c container_id) w of (r, w1) \<Rightarrow>
        (case json r of
           Inl x \<Rightarrow> Done (Inl x) w1
         | Inr data \<Rightarrow>
             (if map_of data ''status_code'' = Some ''FINISHED'' then Done (Inr True) w1
              else if map_of data ''status_code'' \<in> {Some ''ERROR'', Some ''EXPIRED''}
              then Done (Inl (RuntimeError (''Container '' @ container_id @ '' failed with status: ''
                                            @ the (map_of data ''status_code'')))) w1
              else if clock w1 - start > real_of_int (poll_timeout c)
              then Done (Inl (TimeoutError (''Container '' @ container_id @ '' not ready within timeout.''))) w1
              else (case sleep (poll_interval c) w1 of
                      Inl x \<Rightarrow> Done (Inl x) w1
                    | Inr w2 \<Rightarrow> Again w2))))"

text \<open>The loop has no bound of its own, so not returning is the value \<open>None\<close>.\<close>

partial_function (option) poll_loop ::
  "env \<Rightarrow> config \<Rightarrow> string \<Rightarrow> real \<Rightarrow> world \<Rightarrow> ((exn + bool) \<times> world) option" where
  "poll_loop e c container_id start w =
     (case poll_pass e c container_id start w of
        Done res w1 \<Rightarrow> Some (res, w1)
      | Again w2 \<Rightarrow> poll_loop e c container_id start w2)"

definition poll_container_ready ::
  "env \<Rightarrow> config \<Rightarrow> string \<Rightarrow> world \<Rightarrow> ((exn + bool) \<times> world) option" where
  "poll_container_ready e c container_id w = poll_loop e c container_id (clock w) w"

definition publish_request :: "config \<Rightarrow> string \<Rightarrow> request" where
  "publish_request c container_id =
     PostPublish [(''creation_id'', container_id), (''access_token'', access_token c)]"

definition publish_container :: "env \<Rightarrow> config \<Rightarrow> string \<Rightarrow> world \<Rightarrow> (exn + string) \<times> world" where
  "publish_container e c container_id w =
     (let (r, w1) = http e (publish_request c container_id) w
      in case json r of
           Inl x \<Rightarrow> (Inl x, w1)
         | Inr data \<Rightarrow> (Inr (case map_of data ''id'' of None \<Rightarrow> [] | Some i \<Rightarrow> i), w1))"

subsection \<open>The loop body of main\<close>

text \<open>
  Line 90. \<open>IST\<close> is a \<open>ZoneInfo\<close>, which has no \<open>localize\<close>: on the legacy branch
  the attribute lookup raises before \<open>strptime\<close> is called.
\<close>

definition parse_sched :: "string \<Rightarrow> exn + datetime" where
  "parse_sched sched_str =
     (if sched_str \<noteq> [] \<and> endswith sched_str '':00Z-legacy''
      then Inl (AttributeError ''localize'')
      else (case strptime sched_str of
              None \<Rightarrow> Inl (ValueError ''time data does not match format'')
            | Some d \<Rightarrow> Inr d))"

text \<open>Lines 82 to 96: which way a row leaves the checks before any remote call.\<close>

datatype gate = Skip | Skip_warn string | Due

definition due_gate :: "datetime \<Rightarrow> row \<Rightarrow> gate" where
  "due_gate now_ist r =
     (if parse_bool (get r ''posted'' ''false'') then Skip
      else let sched_str = strip (get r ''scheduled_time_ist'' [])
        in if sched_str = [] then Skip
           else (case parse_sched sched_str of
                   Inl x \<Rightarrow> Skip_warn sched_str
                 | Inr sched_dt \<Rightarrow> if dt_less now_ist sched_dt then Skip else Due))"

text \<open>Lines 98 to 104: the fields of a due row, and the create call made with them.\<close>

definition create_for_row :: "env \<Rightarrow> config \<Rightarrow> row \<Rightarrow> world \<Rightarrow> (exn + string) \<times> world" where
  "create_for_row e c r w =
     (let video_url = strip (get r ''video_url'' []);
          caption = strip (get r ''caption'' []);
          share_to_feed = parse_bool (get r ''share_to_feed'' ''true'');
          cover_url = (if strip (get r ''cover_url'' []) = [] then None
                       else Some (strip (get r ''cover_url'' [])))
      in create_reel_container e c video_url caption share_to_feed cover_url
           (print (Info_creating video_url) w))"

text \<open>Lines 98 to 115: the three remote steps of a due row, then the flip of \<open>posted\<close>.\<close>

definition publish_row :: "env \<Rightarrow> config \<Rightarrow> row \<Rightarrow> world \<Rightarrow> ((exn + row) \<times> world) option" where
  "publish_row e c r w =
     (case create_for_row e c r w of
        (Inl x, w1) \<Rightarrow> Some (Inl x, w1)
      | (Inr container_id, w1) \<Rightarrow>
          (case poll_container_ready e c container_id
                  (print Info_polling (print (Ok_container container_id) w1)) of
             None \<Rightarrow> None
           | Some (Inl x, w2) \<Rightarrow> Some (Inl x, w2)
           | Some (Inr ready, w2) \<Rightarrow>
               (case publish_container e c container_id (print Ok_ready w2) of
                  (Inl x, w3) \<Rightarrow> Some (Inl x, w3)
                | (Inr media_id, w3) \<Rightarrow>
                    Some (Inr (set_item r ''posted'' ''true''), print (Ok_published media_id) w3))))"

text \<open>One pass of the loop: the row as it is left, and whether it set \<open>changed\<close>.\<close>

definition process_row ::
  "env \<Rightarrow> config \<Rightarrow> datetime \<Rightarrow> row \<Rightarrow> world \<Rightarrow> ((exn + row \<times> bool) \<times> world) option" where
  "process_row e c now_ist r w =
     (case due_gate now_ist r of
        Skip \<Rightarrow> Some (Inr (r, False), w)
      | Skip_warn sched_str \<Rightarrow> Some (Inr (r, False), print (Warn_bad_time sched_str) w)
      | Due \<Rightarrow>
          (case publish_row e c r w of
             None \<Rightarrow> None
           | Some (Inl x, w1) \<Rightarrow> Some (Inl x, w1)
           | Some (Inr r', w1) \<Rightarrow> Some (Inr (r', True), w1)))"

text \<open>The \<open>for\<close> loop: nothing catches an exception of the body.\<close>

fun run_rows ::
  "env \<Rightarrow> config \<Rightarrow> datetime \<Rightarrow> row list \<Rightarrow> bool \<Rightarrow> world \<Rightarrow> ((exn + row list \<times> bool) \<times> world) option" where
  "run_rows e c now_ist [] changed w = Some (Inr ([], changed), w)"
| "run_rows e c now_ist (r # rs) changed w =
     (case process_row e c now_ist r w of
        None \<Rightarrow> None
      | Some (Inl x, w1) \<Rightarrow> Some (Inl x, w1)
      | Some (Inr (r', ch), w1) \<Rightarrow>
          (case run_rows e c now_ist rs (changed \<or> ch) w1 of
             None \<Rightarrow> None
           | Some (Inl x, w2) \<Rightarrow> Some (Inl x, w2)
           | Some (Inr (rs', ch'), w2) \<Rightarrow> Some (Inr (r' # rs', ch'), w2)))"

subsection \<open>Saving the manifest, and main\<close>

text \<open>
  \<open>csv.DictWriter\<close> with the keys of the first row as field names: a row with a key
  outside them raises \<open>ValueError\<close>, after the rows before it have been written; a
  missing key is written as the empty string.
\<close>

definition fits :: "string list \<Rightarrow> row \<Rightarrow> bool" where
  "fits fieldnames r \<longleftrightarrow> list_all (\<lambda>k. k \<in> set fieldnames) (map fst r)"

definition written_row :: "string list \<Rightarrow> row \<Rightarrow> row" where
  "written_row fieldnames r = map (\<lambda>k. (k, get r k [])) fieldnames"

definition save_manifest :: "row list \<Rightarrow> world \<Rightarrow> (exn + unit) \<times> world" where
  "save_manifest rows w =
     (let fieldnames = (case rows of [] \<Rightarrow> [] | r # _ \<Rightarrow> map fst r);
          good = takeWhile (fits fieldnames) rows;
          w1 = w\<lparr>manifest := Some (map (written_row fieldnames) good), trace := trace w @ [Wrote]\<rparr>
      in if length good < length rows
         then (Inl (ValueError ''dict contains fields not in fieldnames''), w1)
         else (Inr (), print Ok_manifest_updated w1))"

text \<open>\<open>now\<close> is what \<open>datetime.now(IST)\<close> returns; a manifest that cannot be read is \<open>None\<close>.\<close>

definition main :: "env \<Rightarrow> config \<Rightarrow> datetime \<Rightarrow> world \<Rightarrow> ((exn + unit) \<times> world) option" where
  "main e c now w =
     (case manifest w of
        None \<Rightarrow> Some (Inl OSError, w)
      | Some rows \<Rightarrow>
          (case run_rows e c (truncate_minute now) rows False w of
             None \<Rightarrow> None
           | Some (Inl x, w1) \<Rightarrow> Some (Inl x, w1)
           | Some (Inr (rows', changed), w1) \<Rightarrow>
               (if changed then Some (save_manifest rows' w1)
                else Some (Inr (), print Info_nothing_due w1))))"

subsection \<open>Reading a trace\<close>

fun requests_of :: "event list \<Rightarrow> request list" where
  "requests_of [] = []"
| "requests_of (Req rq # evs) = rq # requests_of evs"
| "requests_of (_ # evs) = requests_of evs"

fun is_status_query :: "request \<Rightarrow> bool" where
  "is_status_query (GetStatus _ _) = True"
| "is_status_query _ = False"

fun is_publish :: "request \<Rightarrow> bool" where
  "is_publish (PostPublish _) = True"
| "is_publish _ = False"

definition status_queries :: "event list \<Rightarrow> nat" where
  "status_queries evs = length (filter is_status_query (requests_of evs))"

definition publish_calls :: "event list \<Rightarrow> nat" where
  "publish_calls evs = length (filter is_publish (requests_of evs))"

subsection \<open>A stubbed remote and a small manifest, for worked examples\<close>

declare poll_loop.simps [code]

text \<open>
  The stub answers at once: every create returns the container \<open>c1\<close>, every publish
  the media id \<open>m1\<close>, and the n-th request of the run, when it is a status query, the
  status \<open>statuses n\<close>.
\<close>

definition stub :: "(nat \<Rightarrow> string) \<Rightarrow> env" where
  "stub statuses = \<lparr>remote = (\<lambda>n rq. (0, case rq of
       PostMedia _ \<Rightarrow> Body [(''id'', ''c1'')]
     | GetStatus _ _ \<Rightarrow> Body [(''status_code'', statuses n)]
     | PostPublish _ \<Rightarrow> Body [(''id'', ''m1'')]))\<rparr>"

definition cfg0 :: config where
  "cfg0 = \<lparr>access_token = ''tok'', poll_interval = 8, poll_timeout = 180\<rparr>"

definition w0 :: world where
  "w0 = \<lparr>clock = 0, sent = 0, trace = [], manifest = None\<rparr>"

definition row0 :: row where
  "row0 = [(''posted'', ''false''), (''scheduled_time_ist'', ''2024-01-05 07:05''),
           (''video_url'', ''https://cdn.example/reel1.mp4''), (''caption'', ''hello''),
           (''share_to_feed'', ''true''), (''cover_url'', [])]"

definition create0 :: request where
  "create0 = PostMedia [(''media_type'', ''REELS''),
     (''video_url'', ''https://cdn.example/reel1.mp4''), (''caption'', ''hello''),
     (''share_to_feed'', ''true''), (''access_token'', ''tok'')]"

text \<open>The world after the create call for \<open>row0\<close> from \<open>w0\<close>.\<close>

definition w_created :: world where
  "w_created = \<lparr>clock = 0, sent = 1,
     trace = [Printed (Info_creating ''https://cdn.example/reel1.mp4''), Req create0],
     manifest = None\<rparr>"

definition cfg_neg :: config where
  "cfg_neg = \<lparr>access_token = ''tok'', poll_interval = 8, poll_timeout = - 5\<rparr>"




definition stub_third :: env where
  "stub_third = stub (\<lambda>n. if n < 3 then ''IN_PROGRESS'' else ''FINISHED'')"



section \<open>Properties\<close>

subsection \<open>Requests and the trace\<close>

lemma http_eq:
  "http e rq w = (snd (remote e (sent w) rq),
      w\<lparr>clock := clock w + fst (remote e (sent w) rq), sent := Suc (sent w),
         trace := trace w @ [Req rq]\<rparr>)"
  by (simp add: http_def split: prod.splits)

lemma print_fields [simp]:
  "clock (print l w) = clock w" "sent (print l w) = sent w"
  "trace (print l w) = trace w @ [Printed l]" "manifest (print l w) = manifest w"
  by (simp_all add: print_def)

lemma requests_of_append [simp]: "requests_of (xs @ ys) = requests_of xs @ requests_of ys"
  by (induction xs rule: requests_of.induct) simp_all

lemma status_queries_append [simp]:
  "status_queries (xs @ ys) = status_queries xs + status_queries ys"
  by (simp add: status_queries_def)

lemma publish_calls_append [simp]:
  "publish_calls (xs @ ys) = publish_calls xs + publish_calls ys"
  by (simp add: publish_calls_def)

subsection \<open>One pass of the poll loop\<close>

lemma pass_finished:
  assumes "remote e (sent w) (status_request c cid) = (took, Body b)"
      and "map_of b ''status_code'' = Some ''FINISHED''"
  shows "poll_pass e c cid start w = Done (Inr True)
           (w\<lparr>clock := clock w + took, sent := Suc (sent w),
              trace := trace w @ [Req (status_request c cid)]\<rparr>)"
  using assms by (simp add: poll_pass_def http_eq json_def)

lemma pass_failed:
  assumes "remote e (sent w) (status_request c cid) = (took, Body b)"
      and "map_of b ''status_code'' = Some st" and "st = ''ERROR'' \<or> st = ''EXPIRED''"
  shows "poll_pass e c cid start w =
           Done (Inl (RuntimeError (''Container '' @ cid @ '' failed with status: '' @ st)))
             (w\<lparr>clock := clock w + took, sent := Suc (sent w),
                trace := trace w @ [Req (status_request c cid)]\<rparr>)"
  using assms by (auto simp add: poll_pass_def http_eq json_def)

lemma pass_pending:
  assumes "remote e (sent w) (status_request c cid) = (took, Body b)"
      and "map_of b ''status_code'' \<noteq> Some ''FINISHED''"
      and "map_of b ''status_code'' \<noteq> Some ''ERROR''"
      and "map_of b ''status_code'' \<noteq> Some ''EXPIRED''"
      and "0 \<le> poll_interval c"
  shows "poll_pass e c cid start w =
           (if clock w + took - start > real_of_int (poll_timeout c)
            then Done (Inl (TimeoutError (''Container '' @ cid @ '' not ready within timeout.'')))
                   (w\<lparr>clock := clock w + took, sent := Suc (sent w),
                      trace := trace w @ [Req (status_request c cid)]\<rparr>)
            else Again (w\<lparr>clock := clock w + took + real_of_int (poll_interval c),
                          sent := Suc (sent w),
                          trace := trace w @ [Req (status_request c cid), Slept (poll_interval c)]\<rparr>))"
  using assms by (simp add: poll_pass_def http_eq json_def sleep_def)

lemma pass_trace_done:
  "poll_pass e c cid start w = Done res w1 \<Longrightarrow> trace w1 = trace w @ [Req (status_request c cid)]"
  by (auto simp add: poll_pass_def http_eq sleep_def split: sum.splits if_splits)

lemma pass_trace_again:
  "poll_pass e c cid start w = Again w2 \<Longrightarrow>
     trace w2 = trace w @ [Req (status_request c cid), Slept (poll_interval c)]"
  by (auto simp add: poll_pass_def http_eq sleep_def split: sum.splits if_splits)

lemma loop_done:
  "poll_pass e c cid start w = Done res w1 \<Longrightarrow> poll_loop e c cid start w = Some (res, w1)"
  by (subst poll_loop.simps) simp

lemma loop_again:
  "poll_pass e c cid start w = Again w2 \<Longrightarrow> poll_loop e c cid start w = poll_loop e c cid start w2"
  by (subst poll_loop.simps) simp

text \<open>Whatever the loop returns, it has sent a status query first.\<close>

lemma poll_loop_first_query:
  assumes "poll_loop e c cid start w = Some y"
  shows "\<exists>evs. trace (snd y) = trace w @ Req (status_request c cid) # evs"
proof (rule poll_loop.raw_induct
    [where P = "\<lambda>e c cid start w y. \<exists>evs. trace (snd y) = trace w @ Req (status_request c cid) # evs",
      OF _ assms])
  fix f :: "env \<Rightarrow> config \<Rightarrow> string \<Rightarrow> real \<Rightarrow> world \<Rightarrow> ((exn + bool) \<times> world) option"
  fix e c cid start w y
  assume IH: "\<And>e c cid start w y. f e c cid start w = Some y \<Longrightarrow>
       \<exists>evs. trace (snd y) = trace w @ Req (status_request c cid) # evs"
  assume eq: "(case poll_pass e c cid start w of
                 Done res w1 \<Rightarrow> Some (res, w1)
               | Again w2 \<Rightarrow> f e c cid start w2) = Some y"
  show "\<exists>evs. trace (snd y) = trace w @ Req (status_request c cid) # evs"
  proof (cases "poll_pass e c cid start w")
    case (Done res w1)
    with eq pass_trace_done [OF Done] show ?thesis by auto
  next
    case (Again w2)
    with eq IH obtain evs where "trace (snd y) = trace w2 @ Req (status_request c cid) # evs"
      by fastforce
    with pass_trace_again [OF Again] show ?thesis by simp
  qed
qed

subsection \<open>Claims about poll\_container\_ready\<close>

text \<open>
  C7. When the first polled status is ERROR or EXPIRED, \<open>poll_container_ready\<close> raises at
  once a \<open>RuntimeError\<close> whose message ends with the observed status; it has sent that one
  status query and nothing else. A row whose container it was fails with the same error in
  the same world: no publish request is made for it.
\<close>

theorem poll_error_status_is_final:
  assumes "remote e (sent w) (status_request c cid) = (took, Body b)"
      and "map_of b ''status_code'' = Some st"
      and "st = ''ERROR'' \<or> st = ''EXPIRED''"
  shows "poll_container_ready e c cid w =
           Some (Inl (RuntimeError (''Container '' @ cid @ '' failed with status: '' @ st)),
                 w\<lparr>clock := clock w + took, sent := Suc (sent w),
                    trace := trace w @ [Req (status_request c cid)]\<rparr>)
         \<and> (\<forall>r w0 w1. create_for_row e c r w0 = (Inr cid, w1)
                \<and> w = print Info_polling (print (Ok_container cid) w1)
              \<longrightarrow> publish_row e c r w0 =
                    Some (Inl (RuntimeError (''Container '' @ cid @ '' failed with status: '' @ st)),
                          w\<lparr>clock := clock w + took, sent := Suc (sent w),
                             trace := trace w @ [Req (status_request c cid)]\<rparr>))"
proof -
  have poll: "poll_container_ready e c cid w =
           Some (Inl (RuntimeError (''Container '' @ cid @ '' failed with status: '' @ st)),
                 w\<lparr>clock := clock w + took, sent := Suc (sent w),
                    trace := trace w @ [Req (status_request c cid)]\<rparr>)"
    unfolding poll_container_ready_def by (rule loop_done) (rule pass_failed [OF assms])
  have "publish_row e c r w0 =
           Some (Inl (RuntimeError (''Container '' @ cid @ '' failed with status: '' @ st)),
                 w\<lparr>clock := clock w + took, sent := Suc (sent w),
                    trace := trace w @ [Req (status_request c cid)]\<rparr>)"
    if "create_for_row e c r w0 = (Inr cid, w1)"
      and "w = print Info_polling (print (Ok_container cid) w1)" for r w0 w1
    using that poll by (simp only: publish_row_def prod.case sum.case option.case)
  with poll show ?thesis by blast
qed

theorem poll_error_status_is_final_witness:
  "publish_row (stub (\<lambda>_. ''EXPIRED'')) cfg0 row0 w0 =
     Some (Inl (RuntimeError ''Container c1 failed with status: EXPIRED''),
           \<lparr>clock = 0, sent = 2,
              trace = [Printed (Info_creating ''https://cdn.example/reel1.mp4''), Req create0,
                       Printed (Ok_container ''c1''), Printed Info_polling,
                       Req (status_request cfg0 ''c1'')],
              manifest = None\<rparr>)"
proof -
  let ?w = "print Info_polling (print (Ok_container ''c1'') w_created)"
  have a: "remote (stub (\<lambda>_. ''EXPIRED'')) (sent ?w) (status_request cfg0 ''c1'')
             = (0, Body [(''status_code'', ''EXPIRED'')])"
    by (simp add: stub_def status_request_def)
  have b: "map_of [(''status_code'', ''EXPIRED'')] ''status_code'' = Some ''EXPIRED''"
    by simp
  have c: "create_for_row (stub (\<lambda>_. ''EXPIRED'')) cfg0 row0 w0 = (Inr ''c1'', w_created)"
    by code_simp
  from poll_error_status_is_final [OF a b] c
  have "publish_row (stub (\<lambda>_. ''EXPIRED'')) cfg0 row0 w0 =
     Some (Inl (RuntimeError (''Container '' @ ''c1'' @ '' failed with status: '' @ ''EXPIRED'')),
           ?w\<lparr>clock := clock ?w + 0, sent := Suc (sent ?w),
                trace := trace ?w @ [Req (status_request cfg0 ''c1'')]\<rparr>)"
    by blast
  then show ?thesis by (simp add: print_def w_created_def)
qed

text \<open>
  C10. Whatever the poll timeout is, zero and negative values included, a call of
  \<open>poll_container_ready\<close> that returns or raises has sent a status query before anything
  else; and when the first polled status is FINISHED it returns success after that one
  query, with no condition on the timeout.
\<close>

theorem poll_queries_before_any_timeout_check:
  "(\<forall>res w'. poll_container_ready e c cid w = Some (res, w')
       \<longrightarrow> (\<exists>evs. trace w' = trace w @ Req (status_request c cid) # evs))
   \<and> (\<forall>took b. remote e (sent w) (status_request c cid) = (took, Body b)
          \<and> map_of b ''status_code'' = Some ''FINISHED''
       \<longrightarrow> poll_container_ready e c cid w =
             Some (Inr True, w\<lparr>clock := clock w + took, sent := Suc (sent w),
                                trace := trace w @ [Req (status_request c cid)]\<rparr>))"
proof (intro conjI allI impI)
  fix res w'
  assume "poll_container_ready e c cid w = Some (res, w')"
  then show "\<exists>evs. trace w' = trace w @ Req (status_request c cid) # evs"
    unfolding poll_container_ready_def using poll_loop_first_query by fastforce
next
  fix took b
  assume a: "remote e (sent w) (status_request c cid) = (took, Body b)
          \<and> map_of b ''status_code'' = Some ''FINISHED''"
  show "poll_container_ready e c cid w =
             Some (Inr True, w\<lparr>clock := clock w + took, sent := Suc (sent w),
                                trace := trace w @ [Req (status_request c cid)]\<rparr>)"
    unfolding poll_container_ready_def
    by (rule loop_done, rule pass_finished [OF conjunct1 [OF a] conjunct2 [OF a]])
qed

theorem poll_queries_before_any_timeout_check_witness:
  "poll_container_ready (stub (\<lambda>_. ''FINISHED'')) cfg_neg ''c1'' w0 =
     Some (Inr True, \<lparr>clock = 0, sent = 1, trace = [Req (status_request cfg_neg ''c1'')],
                      manifest = None\<rparr>)
   \<and> poll_container_ready (stub (\<lambda>_. ''IN_PROGRESS'')) cfg_neg ''c1'' w0 =
     Some (Inl (TimeoutError ''Container c1 not ready within timeout.''),
           \<lparr>clock = 0, sent = 1, trace = [Req (status_request cfg_neg ''c1'')], manifest = None\<rparr>)
   \<and> (\<exists>evs. [Req (status_request cfg_neg ''c1'')] = trace w0 @ Req (status_request cfg_neg ''c1'') # evs)"
proof -
  have a: "remote (stub (\<lambda>_. ''FINISHED'')) (sent w0) (status_request cfg_neg ''c1'')
             = (0, Body [(''status_code'', ''FINISHED'')])
           \<and> map_of [(''status_code'', ''FINISHED'')] ''status_code'' = Some ''FINISHED''"
    by (simp add: stub_def status_request_def)
  have b: "poll_container_ready (stub (\<lambda>_. ''IN_PROGRESS'')) cfg_neg ''c1'' w0 =
     Some (Inl (TimeoutError ''Container c1 not ready within timeout.''),
           \<lparr>clock = 0, sent = 1, trace = [Req (status_request cfg_neg ''c1'')], manifest = None\<rparr>)"
    by code_simp
  from poll_queries_before_any_timeout_check [of "stub (\<lambda>_. ''FINISHED'')" cfg_neg "''c1''" w0] a
  have "poll_container_ready (stub (\<lambda>_. ''FINISHED'')) cfg_neg ''c1'' w0 =
     Some (Inr True, w0\<lparr>clock := clock w0 + 0, sent := Suc (sent w0),
                                trace := trace w0 @ [Req (status_request cfg_neg ''c1'')]\<rparr>)"
    by blast
  moreover
  from poll_queries_before_any_timeout_check [of "stub (\<lambda>_. ''IN_PROGRESS'')" cfg_neg "''c1''" w0] b
  have "\<exists>evs. [Req (status_request cfg_neg ''c1'')] = trace w0 @ Req (status_request cfg_neg ''c1'') # evs"
    by fastforce
  ultimately show ?thesis using b by (simp add: w0_def)
qed










lemma publish_container_trace:
  "publish_container e c cid w = (res, w') \<Longrightarrow> trace w' = trace w @ [Req (publish_request c cid)]"
  by (auto simp add: publish_container_def http_eq split: sum.splits)

text \<open>
  C6. With an interval of 8 seconds, a timeout of at least 180 seconds and the status
  sequence IN_PROGRESS, IN_PROGRESS, FINISHED (the first two queries taking at most 172
  seconds together, so that the 180 seconds are not used up), \<open>poll_container_ready\<close>
  returns success after exactly 3 status queries with two sleeps between them; and the row
  whose container it is sends, after them, exactly one publish request and no other
  request.
\<close>

theorem three_polls_then_publish:
  assumes "poll_interval c = 8" and "180 \<le> poll_timeout c"
      and "remote e (sent w) (status_request c cid) = (t1, Body b1)"
      and "map_of b1 ''status_code'' = Some ''IN_PROGRESS''"
      and "remote e (sent w + 1) (status_request c cid) = (t2, Body b2)"
      and "map_of b2 ''status_code'' = Some ''IN_PROGRESS''"
      and "remote e (sent w + 2) (status_request c cid) = (t3, Body b3)"
      and "map_of b3 ''status_code'' = Some ''FINISHED''"
      and "0 \<le> t1" and "0 \<le> t2" and "t1 + t2 \<le> 172"
  shows "poll_container_ready e c cid w =
           Some (Inr True,
                 w\<lparr>clock := clock w + t1 + 8 + t2 + 8 + t3, sent := sent w + 3,
                    trace := trace w @ [Req (status_request c cid), Slept 8,
                                        Req (status_request c cid), Slept 8,
                                        Req (status_request c cid)]\<rparr>)
         \<and> (\<forall>r w0 w1. create_for_row e c r w0 = (Inr cid, w1)
                \<and> w = print Info_polling (print (Ok_container cid) w1)
              \<longrightarrow> (\<exists>res w'. publish_row e c r w0 = Some (res, w')
                    \<and> requests_of (trace w') =
                        requests_of (trace w) @
                          [status_request c cid, status_request c cid, status_request c cid,
                           publish_request c cid]))"
proof -
  let ?q = "status_request c cid"
  let ?wa = "w\<lparr>clock := clock w + t1 + 8, sent := Suc (sent w),
                 trace := trace w @ [Req ?q, Slept 8]\<rparr>"
  let ?wb = "?wa\<lparr>clock := clock ?wa + t2 + 8, sent := Suc (sent ?wa),
                 trace := trace ?wa @ [Req ?q, Slept 8]\<rparr>"
  let ?wc = "?wb\<lparr>clock := clock ?wb + t3, sent := Suc (sent ?wb),
                 trace := trace ?wb @ [Req ?q]\<rparr>"
  have ne1: "map_of b1 ''status_code'' \<noteq> Some ''FINISHED''"
    "map_of b1 ''status_code'' \<noteq> Some ''ERROR''" "map_of b1 ''status_code'' \<noteq> Some ''EXPIRED''"
    using assms(4) by simp_all
  have ne2: "map_of b2 ''status_code'' \<noteq> Some ''FINISHED''"
    "map_of b2 ''status_code'' \<noteq> Some ''ERROR''" "map_of b2 ''status_code'' \<noteq> Some ''EXPIRED''"
    using assms(6) by simp_all
  have i: "0 \<le> poll_interval c" using assms(1) by simp
  have p1: "poll_pass e c cid (clock w) w = Again ?wa"
    using pass_pending [OF assms(3) ne1 i, of "clock w"] assms(1,2,9,10,11) by simp
  have r2: "remote e (sent ?wa) ?q = (t2, Body b2)" using assms(5) by simp
  have p2: "poll_pass e c cid (clock w) ?wa = Again ?wb"
    using pass_pending [OF r2 ne2 i, of "clock w"] assms(1,2,9,10,11) by simp
  have r3: "remote e (sent ?wb) ?q = (t3, Body b3)" using assms(7) by (simp add: numeral_2_eq_2)
  have p3: "poll_pass e c cid (clock w) ?wb = Done (Inr True) ?wc"
    using pass_finished [OF r3 assms(8), of "clock w"] by simp
  have "poll_loop e c cid (clock w) w = Some (Inr True, ?wc)"
    using loop_again [OF p1] loop_again [OF p2] loop_done [OF p3] by simp
  then have poll: "poll_container_ready e c cid w =
           Some (Inr True,
                 w\<lparr>clock := clock w + t1 + 8 + t2 + 8 + t3, sent := sent w + 3,
                    trace := trace w @ [Req ?q, Slept 8, Req ?q, Slept 8, Req ?q]\<rparr>)"
    by (simp add: poll_container_ready_def)
  have row: "\<exists>res w'. publish_row e c r w0 = Some (res, w')
                    \<and> requests_of (trace w') =
                        requests_of (trace w) @ [?q, ?q, ?q, publish_request c cid]"
    if cr: "create_for_row e c r w0 = (Inr cid, w1)"
      and w: "w = print Info_polling (print (Ok_container cid) w1)" for r w0 w1
  proof -
    let ?w5 = "w\<lparr>clock := clock w + t1 + 8 + t2 + 8 + t3, sent := sent w + 3,
                    trace := trace w @ [Req ?q, Slept 8, Req ?q, Slept 8, Req ?q]\<rparr>"
    obtain pres w6 where pub: "publish_container e c cid (print Ok_ready ?w5) = (pres, w6)"
      by (cases "publish_container e c cid (print Ok_ready ?w5)")
    from publish_container_trace [OF pub]
    have t6: "requests_of (trace w6) = requests_of (trace w) @ [?q, ?q, ?q, publish_request c cid]"
      by simp
    from cr w poll pub have "publish_row e c r w0 =
        (case pres of Inl x \<Rightarrow> Some (Inl x, w6)
         | Inr media_id \<Rightarrow> Some (Inr (set_item r ''posted'' ''true''), print (Ok_published media_id) w6))"
      by (simp only: publish_row_def prod.case sum.case option.case)
    with t6 show ?thesis by (cases pres) simp_all
  qed
  from poll row show ?thesis by blast
qed

theorem three_polls_then_publish_witness:
  "publish_row stub_third cfg0 row0 w0 =
     Some (Inr (set_item row0 ''posted'' ''true''),
       \<lparr>clock = 16, sent = 5,
          trace = [Printed (Info_creating ''https://cdn.example/reel1.mp4''), Req create0,
                   Printed (Ok_container ''c1''), Printed Info_polling,
                   Req (status_request cfg0 ''c1''), Slept 8,
                   Req (status_request cfg0 ''c1''), Slept 8,
                   Req (status_request cfg0 ''c1''),
                   Printed Ok_ready, Req (publish_request cfg0 ''c1''),
                   Printed (Ok_published ''m1'')],
          manifest = None\<rparr>)
   \<and> requests_of (trace (snd (the (publish_row stub_third cfg0 row0 w0)))) =
       [create0, status_request cfg0 ''c1'', status_request cfg0 ''c1'',
        status_request cfg0 ''c1'', publish_request cfg0 ''c1'']"
proof -
  let ?w = "print Info_polling (print (Ok_container ''c1'') w_created)"
  have ev: "publish_row stub_third cfg0 row0 w0 =
     Some (Inr (set_item row0 ''posted'' ''true''),
       \<lparr>clock = 16, sent = 5,
          trace = [Printed (Info_creating ''https://cdn.example/reel1.mp4''), Req create0,
                   Printed (Ok_container ''c1''), Printed Info_polling,
                   Req (status_request cfg0 ''c1''), Slept 8,
                   Req (status_request cfg0 ''c1''), Slept 8,
                   Req (status_request cfg0 ''c1''),
                   Printed Ok_ready, Req (publish_request cfg0 ''c1''),
                   Printed (Ok_published ''m1'')],
          manifest = None\<rparr>)"
    by code_simp
  have c: "create_for_row stub_third cfg0 row0 w0 = (Inr ''c1'', w_created)"
    by code_simp
  have h: "poll_interval cfg0 = 8" "180 \<le> poll_timeout cfg0"
    "remote stub_third (sent ?w) (status_request cfg0 ''c1'') = (0, Body [(''status_code'', ''IN_PROGRESS'')])"
    "map_of [(''status_code'', ''IN_PROGRESS'')] ''status_code'' = Some ''IN_PROGRESS''"
    "remote stub_third (sent ?w + 1) (status_request cfg0 ''c1'') = (0, Body [(''status_code'', ''IN_PROGRESS'')])"
    "map_of [(''status_code'', ''IN_PROGRESS'')] ''status_code'' = Some ''IN_PROGRESS''"
    "remote stub_third (sent ?w + 2) (status_request cfg0 ''c1'') = (0, Body [(''status_code'', ''FINISHED'')])"
    "map_of [(''status_code'', ''FINISHED'')] ''status_code'' = Some ''FINISHED''"
    "(0::real) \<le> 0" "(0::real) \<le> 0" "(0::real) + 0 \<le> 172"
    by (simp_all add: cfg0_def stub_third_def stub_def status_request_def w_created_def)
  from three_polls_then_publish [OF h] c
  obtain res w' where "publish_row stub_third cfg0 row0 w0 = Some (res, w')"
    and "requests_of (trace w') = requests_of (trace ?w) @
           [status_request cfg0 ''c1'', status_request cfg0 ''c1'', status_request cfg0 ''c1'',
            publish_request cfg0 ''c1'']"
    by blast
  then have "requests_of (trace (snd (the (publish_row stub_third cfg0 row0 w0)))) =
       [create0, status_request cfg0 ''c1'', status_request cfg0 ''c1'',
        status_request cfg0 ''c1'', publish_request cfg0 ''c1'']"
    by (simp add: w_created_def)
  with ev show ?thesis by blast
qed












lemma suffix_last: "suffix r s \<Longrightarrow> r \<noteq> [] \<Longrightarrow> last s = last r"
  by (auto simp add: suffix_def)









end
